theory Spec2Isabelle
  imports Complex_Main
begin

section \<open>The fundamental-solution integrator of the Fluid\_Wave notebook\<close>

text \<open>
  The notebook \<^verbatim>\<open>Fundamental Solution Integration copy.ipynb\<close> evaluates
  \<open>F(r,t) = \<integral> f(k;r,t) dk\<close> with a hand-written Simpson rule. The embedding below follows
  the Python source function by function.

  Numbers. Python floats and NumPy \<^verbatim>\<open>float64\<close> values are modelled by \<^typ>\<open>real\<close>: rounding,
  overflow and underflow are not modelled. What is modelled is where the arithmetic leaves
  the reals:
  \<^item> a division of Python scalars (\<^verbatim>\<open>int\<close>/\<^verbatim>\<open>float\<close>) by zero raises
    \<^verbatim>\<open>ZeroDivisionError\<close>: the result is \<open>Inl ZeroDivisionError\<close>;
  \<^item> a division whose numerator is a NumPy scalar (everything that went through
    \<^verbatim>\<open>np.exp\<close>, \<^verbatim>\<open>np.sin\<close>, \<^verbatim>\<open>np.sinc\<close>) does not raise: a zero divisor gives
    \<^verbatim>\<open>nan\<close> or \<^verbatim>\<open>inf\<close> with a warning. Such a value, and the complex number that
    \<^verbatim>\<open>x ** 0.5\<close> returns on a negative Python float, is \<open>None\<close> of the type \<open>npfloat\<close>; it
    stays \<open>None\<close> through the sums and products that follow.
  The arguments of \<open>f\<close>, \<open>e\<close>, \<open>Npts\<close> and \<open>k_0\<close> are Python scalars, as in the notebook's own
  call \<^verbatim>\<open>F(1,1e-2,5e-3,7,w_0,c)\<close>.
\<close>

datatype error = ZeroDivisionError | NameError | ValueError | OverflowError

type_synonym npfloat = "real option"

text \<open>\<^verbatim>\<open>int(x)\<close> on a float truncates towards zero.\<close>

definition py_int :: "real \<Rightarrow> int" where
  "py_int x = (if 0 \<le> x then \<lfloor>x\<rfloor> else \<lceil>x\<rceil>)"

text \<open>\<^verbatim>\<open>np.sinc(x)\<close> is \<open>sin(\<pi>x)/(\<pi>x)\<close>, with the value 1 at \<open>x = 0\<close>.\<close>

definition np_sinc :: "real \<Rightarrow> real" where
  "np_sinc x = (if x = 0 then 1 else sin (pi * x) / (pi * x))"

subsection \<open>The integrand and its envelope\<close>

text \<open>
  \<^verbatim>\<open>def f(k,r,t,w_0=w_0,c=c)\<close>. The guards come first, then \<^verbatim>\<open>2*w_0/c\<close> is computed
  (Python division), then one of the two regimes. Inside a regime the Python divisions are
  those by \<^verbatim>\<open>2 * w_0\<close> and \<^verbatim>\<open>4 * w_0**2\<close>; the quotient by \<^verbatim>\<open>r*k\<close> and, above the
  critical wavenumber, by \<^verbatim>\<open>2*k*c*t*(...)**0.5\<close> has a NumPy numerator.
  \<^verbatim>\<open>x ** 0.5\<close> is \<open>sqrt x\<close> where \<open>x \<ge> 0\<close>.
\<close>

definition f :: "real \<Rightarrow> real \<Rightarrow> real \<Rightarrow> real \<Rightarrow> real \<Rightarrow> error + npfloat" where
  "f k r t w_0 c =
     (if t < 0 then Inr (Some 0)
      else if k \<le> 0 then Inr (Some 0)
      else if c = 0 then Inl ZeroDivisionError
      else if k < 2 * w_0 / c then
        (if w_0 = 0 then Inl ZeroDivisionError
         else if 1 - k ^ 2 * c ^ 2 / (4 * w_0 ^ 2) < 0 \<or> r * k = 0 then Inr None
         else Inr (Some (8 * pi ^ 2 * c ^ 2 * k ^ 2 * exp (- (c ^ 2) * k ^ 2 * t / (2 * w_0)) *
                np_sinc (k * c * t / pi * sqrt (1 - k ^ 2 * c ^ 2 / (4 * w_0 ^ 2))) *
                sin (r * k) / (r * k))))
      else if k > 2 * w_0 / c then
        (if w_0 = 0 then Inl ZeroDivisionError
         else if - 1 + k ^ 2 * c ^ 2 / (4 * w_0 ^ 2) < 0
               \<or> 2 * k * c * t * sqrt (- 1 + k ^ 2 * c ^ 2 / (4 * w_0 ^ 2)) = 0
               \<or> r * k = 0 then Inr None
         else Inr (Some (8 * pi ^ 2 * c ^ 2 * k ^ 2 *
                (exp (k * c * t * sqrt (- 1 + k ^ 2 * c ^ 2 / (4 * w_0 ^ 2)) - c ^ 2 * k ^ 2 * t / (2 * w_0)) -
                 exp (- k * c * t * sqrt (- 1 + k ^ 2 * c ^ 2 / (4 * w_0 ^ 2)) - c ^ 2 * k ^ 2 * t / (2 * w_0))) /
                (2 * k * c * t * sqrt (- 1 + k ^ 2 * c ^ 2 / (4 * w_0 ^ 2))) * sin (r * k) / (r * k))))
      else Inr (Some 0))"


subsection \<open>The estimator\<close>

text \<open>
  \<^verbatim>\<open>def Npts(r,t,delta,Np,w_0,c)\<close> and \<^verbatim>\<open>def k_0(r,t,delta,w_0,c)\<close>: the prefactor is
  computed first (a division by \<^verbatim>\<open>c * np.pi\<close>, by \<^verbatim>\<open>c\<close>), then the quotient by
  \<^verbatim>\<open>delta**2 * r**2 * t**2\<close>; both are divisions of Python scalars.
\<close>

definition Npts :: "real \<Rightarrow> real \<Rightarrow> real \<Rightarrow> real \<Rightarrow> real \<Rightarrow> real \<Rightarrow> error + real" where
  "Npts r t delta Np w_0 c =
     (if c * pi = 0 then Inl ZeroDivisionError
      else if delta ^ 2 * r ^ 2 * t ^ 2 = 0 then Inl ZeroDivisionError
      else Inr (w_0 * r * Np / (c * pi) *
                sqrt (16 * pi ^ 4 * c ^ 2 / (delta ^ 2 * r ^ 2 * t ^ 2) * exp (- 2 * w_0 * t) + 1)))"

definition k_0 :: "real \<Rightarrow> real \<Rightarrow> real \<Rightarrow> real \<Rightarrow> real \<Rightarrow> error + real" where
  "k_0 r t delta w_0 c =
     (if c = 0 then Inl ZeroDivisionError
      else if delta ^ 2 * r ^ 2 * t ^ 2 = 0 then Inl ZeroDivisionError
      else Inr (2 * w_0 / c *
                sqrt (16 * pi ^ 4 * c ^ 2 / (delta ^ 2 * r ^ 2 * t ^ 2) * exp (- 2 * w_0 * t) + 1)))"

text \<open>The two formulas as the specification writes them.\<close>

definition k0_spec :: "real \<Rightarrow> real \<Rightarrow> real \<Rightarrow> real \<Rightarrow> real \<Rightarrow> real" where
  "k0_spec r t \<delta> \<omega>\<^sub>0 c =
     (2 * \<omega>\<^sub>0 / c) * sqrt ((16 * pi ^ 4 * c ^ 2) / (\<delta> ^ 2 * r ^ 2 * t ^ 2) * exp (- 2 * \<omega>\<^sub>0 * t) + 1)"

definition N_spec :: "real \<Rightarrow> real \<Rightarrow> real \<Rightarrow> real \<Rightarrow> real \<Rightarrow> real \<Rightarrow> real" where
  "N_spec r t \<delta> N\<^sub>p \<omega>\<^sub>0 c =
     (\<omega>\<^sub>0 * r * N\<^sub>p) / (c * pi) * sqrt ((16 * pi ^ 4 * c ^ 2) / (\<delta> ^ 2 * r ^ 2 * t ^ 2) + 1)"

subsection \<open>The quadrature\<close>

text \<open>
  Sums and products of NumPy values: a non-finite operand makes the result non-finite.
\<close>

fun np_add :: "npfloat \<Rightarrow> npfloat \<Rightarrow> npfloat" where
  "np_add (Some x) (Some y) = Some (x + y)"
| "np_add _ _ = None"

fun np_scale :: "real \<Rightarrow> npfloat \<Rightarrow> npfloat" where
  "np_scale a (Some x) = Some (a * x)"
| "np_scale a None = None"

text \<open>
  \<^verbatim>\<open>def simps_point(f,a,b,Dx=-1,params=())\<close>. The integrand \<open>g\<close> stands for
  \<^verbatim>\<open>lambda x: f(x,*params)\<close>, so the two branches on \<^verbatim>\<open>params == ()\<close> are one. The three
  evaluations happen in the order \<open>a\<close>, midpoint, \<open>b\<close>; an exception in one of them ends the
  call.
\<close>

definition simps_point :: "(real \<Rightarrow> error + npfloat) \<Rightarrow> real \<Rightarrow> real \<Rightarrow> real \<Rightarrow> error + npfloat" where
  "simps_point g a b Dx =
     (let Dx' = (if Dx < 0 then \<bar>a - b\<bar> else Dx) in
      case g a of Inl err \<Rightarrow> Inl err | Inr ya \<Rightarrow>
     (case g ((a + b) / 2) of Inl err \<Rightarrow> Inl err | Inr ym \<Rightarrow>
     (case g b of Inl err \<Rightarrow> Inl err | Inr yb \<Rightarrow>
        Inr (np_scale (Dx' / 6) (np_add (np_add ya (np_scale 4 ym)) yb)))))"

text \<open>
  \<^verbatim>\<open>def simps(f,a,b,Npts,progress = False,params = ())\<close>. Both branches on \<^verbatim>\<open>progress\<close> run
  the same loop \<^verbatim>\<open>for i in range(0,int(Npts)): integral += simps_point(f,a,a+i*Dx,Dx,params)\<close>;
  the progress bar is not modelled. \<open>simps_loop\<close> is that loop over the list of indices, with
  the accumulator \<^verbatim>\<open>integral\<close>.

  \<^verbatim>\<open>Dx = abs(a-b)/Npts\<close> is the one place where the kind of the operands matters for the
  outcome: with Python numbers a zero \<^verbatim>\<open>Npts\<close> raises; when one of \<open>a\<close>, \<open>b\<close>, \<open>Npts\<close> is a
  NumPy scalar (as in \<open>F\<close>, whose bounds come out of \<^verbatim>\<open>np.exp\<close>) \<^verbatim>\<open>Dx\<close> is \<^verbatim>\<open>inf\<close> or
  \<^verbatim>\<open>nan\<close>, the range is empty and the initial \<^verbatim>\<open>integral = 0\<close> is returned.
  The parameter \<^verbatim>\<open>Npts\<close> of the source is \<open>N\<close> here (the name is taken by the estimator).
\<close>

datatype division = PythonDivision | NumPyDivision

fun simps_loop :: "(real \<Rightarrow> error + npfloat) \<Rightarrow> real \<Rightarrow> real \<Rightarrow> nat list \<Rightarrow> npfloat \<Rightarrow> error + npfloat" where
  "simps_loop g a Dx [] integral = Inr integral"
| "simps_loop g a Dx (i # is) integral =
     (case simps_point g a (a + real i * Dx) Dx of
        Inl err \<Rightarrow> Inl err
      | Inr v \<Rightarrow> simps_loop g a Dx is (np_add integral v))"

text \<open>\<^verbatim>\<open>range(0, n)\<close>: empty for \<open>n \<le> 0\<close>.\<close>

definition py_range0 :: "int \<Rightarrow> nat list" where
  "py_range0 n = [0..<nat n]"

definition simps :: "division \<Rightarrow> (real \<Rightarrow> error + npfloat) \<Rightarrow> real \<Rightarrow> real \<Rightarrow> real \<Rightarrow> error + npfloat" where
  "simps dv g a b N =
     (if N = 0 then
        (case dv of PythonDivision \<Rightarrow> Inl ZeroDivisionError | NumPyDivision \<Rightarrow> Inr (Some 0))
      else simps_loop g a (\<bar>a - b\<bar> / N) (py_range0 (py_int N)) (Some 0))"

text \<open>
  The quadrature as the specification words it: \<open>N\<close> subintervals of width
  \<open>\<Delta>x = (b-a)/N\<close>, the three-point rule on each \<open>[x\<^sub>i, x\<^sub>i + \<Delta>x]\<close> with \<open>x\<^sub>i = a + i\<sqdot>\<Delta>x\<close>.
\<close>

definition simps_spec :: "(real \<Rightarrow> real) \<Rightarrow> real \<Rightarrow> real \<Rightarrow> nat \<Rightarrow> real" where
  "simps_spec g a b N =
     (let \<Delta>x = (b - a) / real N in
      sum_list (map (\<lambda>i. \<Delta>x / 6 * (g (a + real i * \<Delta>x) + 4 * g (a + real i * \<Delta>x + \<Delta>x / 2)
                                   + g (a + real i * \<Delta>x + \<Delta>x))) [0..<N]))"

subsection \<open>One point of the solution\<close>

text \<open>
  \<^verbatim>\<open>def F(r,t,delta,Np,w_0,c,progress = False)\<close>:
  \<^verbatim>\<open>simps(f, 1e-4, k_0(r,t,delta,w_0,c), Npts(r,t,delta,Np,w_0,c), params=(r,t,w_0,c))\<close>.
  The arguments are evaluated left to right, \<open>k_0\<close> before \<open>Npts\<close>.
\<close>

definition F :: "real \<Rightarrow> real \<Rightarrow> real \<Rightarrow> real \<Rightarrow> real \<Rightarrow> real \<Rightarrow> error + npfloat" where
  "F r t delta Np w_0 c =
     (case k_0 r t delta w_0 c of Inl err \<Rightarrow> Inl err | Inr b \<Rightarrow>
     (case Npts r t delta Np w_0 c of Inl err \<Rightarrow> Inl err | Inr N \<Rightarrow>
        simps NumPyDivision (\<lambda>k. f k r t w_0 c) (1 / 10 ^ 4) b N))"

subsection \<open>A radius sweep at one time\<close>

text \<open>
  \<^verbatim>\<open>np.linspace(start, stop, num)\<close> of NumPy: \<open>num\<close> evenly spaced samples with both ends;
  a negative \<open>num\<close> raises \<^verbatim>\<open>ValueError\<close>.
\<close>

definition linspace :: "real \<Rightarrow> real \<Rightarrow> int \<Rightarrow> error + real list" where
  "linspace start stop num =
     (if num < 0 then Inl ValueError
      else Inr (map (\<lambda>i. if num = 1 then start
                          else start + real i * ((stop - start) / real_of_int (num - 1)))
                    [0..<nat num]))"

text \<open>
  The module-level names that \<^verbatim>\<open>F_slice\<close> reads without receiving them: \<^verbatim>\<open>t_min\<close>,
  \<^verbatim>\<open>t_max\<close> and \<^verbatim>\<open>Nt\<close>. \<open>None\<close> is a name that is not defined: reading it raises
  \<^verbatim>\<open>NameError\<close>.
\<close>

record globals =
  t_min :: "real option"
  t_max :: "real option"
  Nt :: "int option"

text \<open>
  \<open>F\<close> at a radius taken from \<^verbatim>\<open>np.linspace\<close>: the radius is a NumPy scalar, the other
  arguments are Python numbers. \<^verbatim>\<open>2*w_0/c\<close> in \<open>k_0\<close> is still a division of Python numbers
  and raises on \<open>c = 0\<close>. The divisor \<^verbatim>\<open>delta**2 * r**2 * t**2\<close> is now a NumPy scalar: when
  it is zero the quotient is \<^verbatim>\<open>inf\<close> and nothing is raised, \<open>k_0\<close> returns a non-finite
  value, and \<open>Npts\<close> returns \<^verbatim>\<open>nan\<close> when its prefactor \<^verbatim>\<open>w_0 * r * Np/(c * np.pi)\<close> is
  zero and an infinity otherwise. \<^verbatim>\<open>Dx = abs(a-b)/Npts\<close> in \<open>simps\<close> does not raise either;
  \<^verbatim>\<open>int(Npts)\<close> does: \<^verbatim>\<open>ValueError\<close> on \<^verbatim>\<open>nan\<close>, \<^verbatim>\<open>OverflowError\<close> on an infinity.
  With a non-zero divisor the call is \<open>F\<close> as above.
\<close>

definition F_np :: "real \<Rightarrow> real \<Rightarrow> real \<Rightarrow> real \<Rightarrow> real \<Rightarrow> real \<Rightarrow> error + npfloat" where
  "F_np r t delta Np w_0 c =
     (if c = 0 then Inl ZeroDivisionError
      else if delta ^ 2 * r ^ 2 * t ^ 2 = 0 then
        (if w_0 * r * Np / (c * pi) = 0 then Inl ValueError else Inl OverflowError)
      else F r t delta Np w_0 c)"

text \<open>
  The loop \<^verbatim>\<open>for r in R: grid.append(F(r,t,delta,Np,w_0,c))\<close> over the radii of
  \<^verbatim>\<open>np.linspace\<close>. A non-finite value of \<open>F\<close> is appended like any other; an exception
  ends the sweep.
\<close>

fun F_grid :: "real list \<Rightarrow> real \<Rightarrow> real \<Rightarrow> real \<Rightarrow> real \<Rightarrow> real \<Rightarrow> error + npfloat list" where
  "F_grid [] t delta Np w_0 c = Inr []"
| "F_grid (r # rs) t delta Np w_0 c =
     (case F_np r t delta Np w_0 c of Inl err \<Rightarrow> Inl err | Inr v \<Rightarrow>
     (case F_grid rs t delta Np w_0 c of Inl err \<Rightarrow> Inl err | Inr vs \<Rightarrow> Inr (v # vs)))"

text \<open>
  \<^verbatim>\<open>def F_slice(r_min,r_max,Nr,t,delta,Np,w_0,c,progress = True)\<close>. The call of
  \<^verbatim>\<open>print\<close> evaluates its arguments in order: \<^verbatim>\<open>Nr\<close>, \<^verbatim>\<open>Nt\<close>, \<^verbatim>\<open>t\<close>, \<^verbatim>\<open>r_min\<close>,
  \<^verbatim>\<open>r_max\<close>, \<^verbatim>\<open>(r_max-r_min)/Nr\<close>, \<^verbatim>\<open>c\<close>, \<^verbatim>\<open>w_0\<close>, \<^verbatim>\<open>2*w_0/c\<close>, \<^verbatim>\<open>delta\<close>, the two
  cutoffs, \<^verbatim>\<open>Np\<close> and the two truncated counts. Then come the two \<^verbatim>\<open>linspace\<close> calls and
  the sweep. The result is the pair of the numbers printed (the literal text between them
  is left out) and the array returned.
\<close>

definition F_slice ::
  "globals \<Rightarrow> real \<Rightarrow> real \<Rightarrow> int \<Rightarrow> real \<Rightarrow> real \<Rightarrow> real \<Rightarrow> real \<Rightarrow> real
     \<Rightarrow> error + (real list \<times> npfloat list)" where
  "F_slice g r_min r_max Nr t delta Np w_0 c =
     (case Nt g of None \<Rightarrow> Inl NameError | Some nt \<Rightarrow>
      if Nr = 0 then Inl ZeroDivisionError
      else if c = 0 then Inl ZeroDivisionError
      else
     (case k_0 r_min t delta w_0 c of Inl err \<Rightarrow> Inl err | Inr k0_m \<Rightarrow>
     (case k_0 r_max t delta w_0 c of Inl err \<Rightarrow> Inl err | Inr k0_M \<Rightarrow>
     (case Npts r_min t delta Np w_0 c of Inl err \<Rightarrow> Inl err | Inr Npts_m \<Rightarrow>
     (case Npts r_max t delta Np w_0 c of Inl err \<Rightarrow> Inl err | Inr Npts_M \<Rightarrow>
     (case linspace r_min r_max Nr of Inl err \<Rightarrow> Inl err | Inr R \<Rightarrow>
     (case t_min g of None \<Rightarrow> Inl NameError | Some tmin \<Rightarrow>
     (case t_max g of None \<Rightarrow> Inl NameError | Some tmax \<Rightarrow>
     (case linspace tmin tmax nt of Inl err \<Rightarrow> Inl err | Inr T \<Rightarrow>
     (case F_grid R t delta Np w_0 c of Inl err \<Rightarrow> Inl err | Inr grid \<Rightarrow>
        Inr ([real_of_int Nr, real_of_int nt, t, r_min, r_max, (r_max - r_min) / real_of_int Nr,
              c, w_0, 2 * w_0 / c, delta, k0_m, k0_M, Np,
              real_of_int (py_int Npts_m), real_of_int (py_int Npts_M)],
             grid)))))))))))"

section \<open>Auxiliary facts\<close>


lemma below_critical:
  assumes "0 < k" "k < 2 * w / c" "0 < w" "0 < (c::real)"
  shows "0 < 1 - k ^ 2 * c ^ 2 / (4 * w ^ 2)"
proof -
  have "k * c < 2 * w" using assms by (simp add: pos_less_divide_eq)
  then have "(k * c) ^ 2 < (2 * w) ^ 2" using assms by (intro power_strict_mono) auto
  then show ?thesis using assms by (simp add: power_mult_distrib)
qed




text \<open>
  A point where the estimator asks for less than one subinterval:
  \<open>r = 1\<close>, \<open>t = 100\<close>, \<open>\<delta> = 1/2\<close>, \<open>N\<^sub>p = 1\<close>, \<open>\<omega>\<^sub>0 = c = 1\<close>, where \<open>Npts\<close> is about \<open>1/\<pi>\<close>.
\<close>

lemma exp_minus_200: "exp (- 200 :: real) \<le> 1 / 201"
proof -
  have "(1::real) + 200 \<le> exp 200" by (rule exp_ge_add_one_self)
  then have "1 / exp (200::real) \<le> 1 / 201" by (intro divide_left_mono) auto
  then show ?thesis by (simp add: exp_minus inverse_eq_divide)
qed

lemma pi_pow4_less: "pi ^ 4 < (256::real)"
proof -
  have "pi ^ 4 < (4::real) ^ 4" using pi_less_4 by (intro power_strict_mono) auto
  then show ?thesis by simp
qed

lemma Npts_late: "Npts 1 100 (1/2) 1 1 1 = Inr (sqrt (4 * pi ^ 4 * exp (- 200) / 625 + 1) / pi)"
  by (simp add: Npts_def power2_eq_square)

lemma k_0_late: "k_0 1 100 (1/2) 1 1 = Inr (2 * sqrt (4 * pi ^ 4 * exp (- 200) / 625 + 1))"
  by (simp add: k_0_def power2_eq_square)

lemma Npts_late_bounds:
  "0 < sqrt (4 * pi ^ 4 * exp (- 200) / 625 + 1) / pi"
  "sqrt (4 * pi ^ 4 * exp (- 200) / 625 + 1) / pi < 1"
proof -
  let ?X = "4 * pi ^ 4 * exp (- 200) / 625 + 1 :: real"
  have X1: "1 \<le> ?X" by simp
  have "pi ^ 4 * exp (- 200) \<le> 256 * (1 / 201)"
    using pi_pow4_less exp_minus_200 by (intro mult_mono) auto
  then have "?X < 4" by simp
  also have "(4::real) \<le> pi ^ 2" using pi_ge_two power_mono [of 2 pi 2] by simp
  finally have "sqrt ?X < sqrt (pi ^ 2)" by (simp del: real_sqrt_abs)
  then have lt: "sqrt ?X < pi" by simp
  from X1 have "0 < ?X" by linarith
  then have "0 < sqrt ?X" by simp
  then show "0 < sqrt ?X / pi" by simp
  from lt show "sqrt ?X / pi < 1" by simp
qed

lemma Npts_late_int: "py_int (sqrt (4 * pi ^ 4 * exp (- 200) / 625 + 1) / pi) = 0"
  using Npts_late_bounds by (simp add: py_int_def floor_eq_iff)

lemma Npts_late_ceiling: "\<lceil>sqrt (4 * pi ^ 4 * exp (- 200) / 625 + 1) / pi\<rceil> = 1"
  using Npts_late_bounds by (simp add: ceiling_eq_iff)

lemma F_late: "F 1 100 (1/2) 1 1 1 = Inr (Some 0)"
proof -
  have "sqrt (4 * pi ^ 4 * exp (- 200) / 625 + 1) / pi \<noteq> 0"
    using Npts_late_bounds(1) by linarith
  then show ?thesis
    by (simp add: F_def k_0_late Npts_late simps_def Npts_late_int py_range0_def)
qed

text \<open>At a grid point the sweep computes \<open>F\<close> wherever no divisor is zero.\<close>

lemma F_np_regular:
  assumes "c \<noteq> 0" and "delta \<noteq> 0" and "r \<noteq> 0" and "t \<noteq> 0"
  shows "F_np r t delta Np w_0 c = F r t delta Np w_0 c"
  using assms by (simp add: F_np_def)

text \<open>A grid radius of zero ends the sweep with the \<^verbatim>\<open>ValueError\<close> of \<^verbatim>\<open>int(nan)\<close>.\<close>

lemma F_np_zero_radius:
  assumes "c \<noteq> 0"
  shows "F_np 0 t delta Np w_0 c = Inl ValueError"
  using assms by (simp add: F_np_def)

lemma length_py_range0: "length (py_range0 (py_int N)) = nat \<lfloor>N\<rfloor>"
  by (auto simp add: py_range0_def py_int_def)

text \<open>
  What the loop of \<open>simps\<close> adds up for an integrand that always returns a real number:
  every term is the three-point rule on \<open>[a, a + i\<sqdot>Dx]\<close>, weighted by \<open>Dx/6\<close>.
\<close>

lemma simps_loop_total:
  "simps_loop (\<lambda>x. Inr (Some (g x))) a Dx is (Some acc) =
     Inr (Some (acc + sum_list (map (\<lambda>i. Dx / 6 * (g a + 4 * g ((a + (a + real i * Dx)) / 2)
                                                 + g (a + real i * Dx))) is)))"
  if "0 \<le> Dx"
  using that
proof (induction "is" arbitrary: acc)
  case Nil
  then show ?case by simp
next
  case (Cons i "is")
  then show ?case by (simp add: simps_point_def algebra_simps)
qed

lemma simps_total:
  assumes "0 < N"
  shows "simps dv (\<lambda>x. Inr (Some (g x))) a b N =
     Inr (Some (sum_list (map (\<lambda>i. \<bar>a - b\<bar> / N / 6 *
                  (g a + 4 * g ((a + (a + real i * (\<bar>a - b\<bar> / N))) / 2)
                       + g (a + real i * (\<bar>a - b\<bar> / N))))
                (py_range0 (py_int N)))))"
proof -
  have "0 \<le> \<bar>a - b\<bar> / N" using assms by simp
  from simps_loop_total [OF this, of g a _ 0] show ?thesis
    using assms by (simp add: simps_def)
qed

text \<open>The count is the cutoff times \<open>r \<sqdot> N\<^sub>p / (2\<pi>)\<close>, as the notebook derives it.\<close>

lemma Npts_from_k_0:
  assumes "Npts r t \<delta> Np w c = Inr N" and "k_0 r t \<delta> w c = Inr b"
  shows "N = b * r * Np / (2 * pi)"
  using assms by (auto simp add: Npts_def k_0_def split: if_splits)

lemma nat_floor_zero: "(nat \<lfloor>N\<rfloor> = 0) = (N < 1)" for N :: real
proof -
  have "(nat \<lfloor>N\<rfloor> = 0) = (\<lfloor>N\<rfloor> < 1)" by auto
  also have "\<dots> = (N < 1)" using floor_less_iff [of N 1] by simp
  finally show ?thesis .
qed

lemma F_slice_late:
  "F_slice \<lparr>t_min = Some a, t_max = Some b, Nt = Some (int n)\<rparr> 1 1 1 100 (1/2) 1 1 1 =
     Inr ([1, real n, 100, 1, 1, 0, 1, 1, 2, 1 / 2,
           2 * sqrt (4 * pi ^ 4 * exp (- 200) / 625 + 1),
           2 * sqrt (4 * pi ^ 4 * exp (- 200) / 625 + 1), 1, 0, 0], [Some 0])"
  by (simp add: F_slice_def k_0_late Npts_late linspace_def F_np_regular F_late Npts_late_int)

section \<open>Properties of the integrand\<close>

text \<open>
  C9 (causality). For every \<open>t < 0\<close>, every \<open>r\<close> and every \<open>k\<close>, and any constants,
  \<open>f(k, r, t, \<omega>\<^sub>0, c)\<close> returns 0: the first guard of \<open>f\<close> decides before anything is
  computed.
\<close>

theorem f_causal: "t < 0 \<Longrightarrow> f k r t w_0 c = Inr (Some 0)"
  by (simp add: f_def)

theorem f_causal_witness: "(- 1 :: real) < 0 \<and> f 3 2 (- 1) 1 1 = Inr (Some 0)"
  using f_causal [of "- 1" 3 2 1 1] by simp

text \<open>
  C8 (evenness in the radius). For every \<open>k\<close>, \<open>t\<close>, \<open>r\<close> and any constants,
  \<open>f(k, -r, t, \<omega>\<^sub>0, c)\<close> and \<open>f(k, r, t, \<omega>\<^sub>0, c)\<close> are the same outcome: the radius enters only
  through \<open>sin(rk)/(rk)\<close>, which is even, and through the test \<open>r * k = 0\<close>.
\<close>

theorem f_even_in_r: "f k (- r) t w_0 c = f k r t w_0 c"
  by (simp add: f_def)



text \<open>
  C7 (the spatial factor at \<open>r = 0\<close>), as the code has it. For \<open>t \<ge> 0\<close>, \<open>0 < k < 2\<omega>\<^sub>0/c\<close> and
  positive constants, \<open>f(k, r, t, \<omega>\<^sub>0, c)\<close> is the real number
  \<open>8\<pi>\<^sup>2c\<^sup>2k\<^sup>2 \<sqdot> exp(-c\<^sup>2k\<^sup>2t/(2\<omega>\<^sub>0)) \<sqdot> sinc(kct\<sqdot>sqrt(1-k\<^sup>2c\<^sup>2/(4\<omega>\<^sub>0\<^sup>2))/\<pi>) \<sqdot> sin(rk)/(rk)\<close> when \<open>r \<noteq> 0\<close>;
  at \<open>r = 0\<close> the quotient \<open>sin(rk)/(rk)\<close> is computed as \<open>0/0\<close> and \<open>f\<close> returns \<^verbatim>\<open>nan\<close>,
  without raising.
\<close>

theorem f_subcritical_value:
  assumes "0 \<le> t" and "0 < k" and "k < 2 * w / c" and "0 < w" and "0 < c"
  shows "f k r t w c =
     (if r = 0 then Inr None
      else Inr (Some (8 * pi ^ 2 * c ^ 2 * k ^ 2 * exp (- (c ^ 2 * k ^ 2 * t / (2 * w))) *
                      np_sinc (k * c * t * sqrt (1 - k ^ 2 * c ^ 2 / (4 * w ^ 2)) / pi) *
                      (sin (r * k) / (r * k)))))"
proof -
  have "0 < 1 - k ^ 2 * c ^ 2 / (4 * w ^ 2)" using assms by (intro below_critical) auto
  then show ?thesis using assms by (simp add: f_def)
qed

theorem f_subcritical_value_witness:
  "f 1 2 0 1 1 = Inr (Some (8 * pi ^ 2 * (sin 2 / 2))) \<and> f 1 0 0 1 1 = Inr None"
  using f_subcritical_value [of 0 1 1 1 2] f_subcritical_value [of 0 1 1 1 0]
  by (simp add: np_sinc_def)

text \<open>
  The claim as the specification states it (the factor defined as 1 at \<open>r\<sqdot>k = 0\<close>) fails at
  \<open>k = 1\<close>, \<open>r = 0\<close>, \<open>t = 1\<close>, \<open>\<omega>\<^sub>0 = c = 1\<close>: no real number is returned.
\<close>

theorem f_zero_radius_counterexample: "f 1 0 1 1 1 = Inr None"
  by (simp add: f_def)

section \<open>Properties of the estimator\<close>

text \<open>
  C4 (cutoff). For \<open>r \<noteq> 0\<close>, \<open>t \<noteq> 0\<close>, \<open>\<delta> > 0\<close>, \<open>\<omega>\<^sub>0 > 0\<close> and \<open>c > 0\<close> the call \<open>k_0(r,t,\<delta>,\<omega>\<^sub>0,c)\<close> raises
  nothing and returns \<open>(2\<omega>\<^sub>0/c) \<sqdot> sqrt((16\<pi>\<^sup>4c\<^sup>2)/(\<delta>\<^sup>2r\<^sup>2t\<^sup>2) \<sqdot> exp(-2\<omega>\<^sub>0t) + 1)\<close>.
\<close>

theorem k_0_formula:
  assumes "r \<noteq> 0" and "t \<noteq> 0" and "0 < \<delta>" and "0 < \<omega>\<^sub>0" and "0 < c"
  shows "k_0 r t \<delta> \<omega>\<^sub>0 c = Inr (k0_spec r t \<delta> \<omega>\<^sub>0 c)"
  using assms by (simp add: k_0_def k0_spec_def)

theorem k_0_formula_witness:
  "k_0 1 1 1 1 1 = Inr (2 * sqrt (16 * pi ^ 4 * exp (- 2) + 1))"
  using k_0_formula [of 1 1 1 1 1] by (simp add: k0_spec_def)


text \<open>
  C2 (subinterval count), as the code has it. For \<open>r > 0\<close>, \<open>t > 0\<close>, \<open>0 < \<delta> < 1\<close>, \<open>N\<^sub>p > 0\<close>
  and positive constants, \<open>Npts\<close> returns
  \<open>(\<omega>\<^sub>0\<sqdot>r\<sqdot>N\<^sub>p)/(c\<sqdot>\<pi>) \<sqdot> sqrt((16\<pi>\<^sup>4c\<^sup>2)/(\<delta>\<^sup>2r\<^sup>2t\<^sup>2) \<sqdot> exp(-2\<omega>\<^sub>0t) + 1)\<close>: the square root carries the
  same factor \<open>exp(-2\<omega>\<^sub>0t)\<close> as in \<open>k_0\<close>, so that \<open>Npts = k_0 \<sqdot> r \<sqdot> N\<^sub>p / (2\<pi>)\<close>.
\<close>

theorem Npts_formula:
  assumes "0 < r" and "0 < t" and "0 < \<delta>" and "\<delta> < 1" and "0 < Np" and "0 < w" and "0 < c"
  shows "Npts r t \<delta> Np w c =
     Inr ((w * r * Np) / (c * pi) *
          sqrt ((16 * pi ^ 4 * c ^ 2) / (\<delta> ^ 2 * r ^ 2 * t ^ 2) * exp (- 2 * w * t) + 1))"
  using assms by (simp add: Npts_def)

theorem Npts_formula_witness:
  "Npts 1 1 (1/2) 1 1 1 = Inr (1 / pi * sqrt (64 * pi ^ 4 * exp (- 2) + 1))"
  using Npts_formula [of 1 1 "1/2" 1 1 1] by (simp add: power2_eq_square)

text \<open>
  The formula of the specification, without the exponential, is not what \<open>Npts\<close> returns
  at \<open>r = t = 1\<close>, \<open>\<delta> = 1/2\<close>, \<open>N\<^sub>p = 1\<close>, \<open>\<omega>\<^sub>0 = c = 1\<close>.
\<close>

theorem Npts_spec_counterexample: "Npts 1 1 (1/2) 1 1 1 \<noteq> Inr (N_spec 1 1 (1/2) 1 1 1)"
proof -
  have "(64 * pi ^ 4 * exp (- 2) + 1 :: real) < 64 * pi ^ 4 + 1"
    by simp
  then have "sqrt (64 * pi ^ 4 * exp (- 2) + 1) \<noteq> sqrt (64 * pi ^ 4 + 1)"
    by simp
  then show ?thesis
    by (simp add: Npts_def N_spec_def power2_eq_square)
qed

text \<open>
  C3 (degenerate points), as the code has it. When \<open>r = 0\<close> or \<open>t = 0\<close>, \<open>Npts\<close> and \<open>k_0\<close>
  divide by \<open>\<delta>\<^sup>2r\<^sup>2t\<^sup>2 = 0\<close> without a guard: called with Python numbers both raise
  \<^verbatim>\<open>ZeroDivisionError\<close>, and \<open>F\<close>, which calls them, raises it too.
\<close>

theorem estimator_unguarded:
  assumes "r = 0 \<or> t = 0"
  shows "Npts r t \<delta> Np w c = Inl ZeroDivisionError
       \<and> k_0 r t \<delta> w c = Inl ZeroDivisionError
       \<and> F r t \<delta> Np w c = Inl ZeroDivisionError"
  using assms by (auto simp add: Npts_def k_0_def F_def)

theorem estimator_unguarded_witness:
  "Npts 1 0 (1/2) 1 1 1 = Inl ZeroDivisionError
   \<and> k_0 1 0 (1/2) 1 1 = Inl ZeroDivisionError
   \<and> F 1 0 (1/2) 1 1 1 = Inl ZeroDivisionError"
  using estimator_unguarded [of 1 0 "1/2" 1 1 1] by simp

text \<open>
  No defined zero or sentinel at \<open>r = 0\<close>, \<open>t = 1\<close>, \<open>\<delta> = 1/2\<close>, \<open>N\<^sub>p = 1\<close>, \<open>\<omega>\<^sub>0 = c = 1\<close>: the
  division error is what the three calls produce.
\<close>

theorem estimator_zero_radius_counterexample:
  "Npts 0 1 (1/2) 1 1 1 = Inl ZeroDivisionError
   \<and> k_0 0 1 (1/2) 1 1 = Inl ZeroDivisionError
   \<and> F 0 1 (1/2) 1 1 1 = Inl ZeroDivisionError"
  by (simp add: Npts_def k_0_def F_def)

section \<open>Properties of the quadrature\<close>

text \<open>
  C1 (subintervals of the Simpson rule). The loop of \<open>simps\<close> calls
  \<^verbatim>\<open>simps_point(f,a,a+i*Dx,Dx,params)\<close>: the rule is applied to \<open>[a, a + i\<sqdot>\<Delta>x]\<close> with the weight
  \<open>\<Delta>x/6\<close>, not to \<open>[x\<^sub>i, x\<^sub>i + \<Delta>x]\<close>. For the integrand \<open>g(x) = x\<close> on \<open>[0, 2]\<close> with \<open>N = 2\<close>
  the code returns \<open>1/2\<close>, where the sum of the specification (and the integral) is 2.
\<close>

theorem simps_not_adjacent:
  "simps PythonDivision (\<lambda>x. Inr (Some x)) 0 2 2 = Inr (Some (1 / 2))
   \<and> simps_spec (\<lambda>x. x) 0 2 2 = 2"
  by (simp add: simps_def py_int_def py_range0_def simps_point_def simps_spec_def numeral_2_eq_2)

text \<open>
  C6 (rounding of the subinterval count), as the code has it. Wherever the estimator returns
  (\<open>r\<close>, \<open>t\<close>, \<open>\<delta>\<close>, \<open>c\<close> not zero), \<open>F\<close> is the loop of \<open>simps\<close> over \<^verbatim>\<open>range(0,int(N))\<close> for the
  estimator's output \<open>N\<close>, with the step \<open>|10\<^sup>-\<^sup>4 - k\<^sub>0|/N\<close> computed from the unrounded \<open>N\<close>. The
  number of subintervals is \<open>N\<close> truncated, that is \<open>\<lfloor>N\<rfloor>\<close> (and 0 for a negative \<open>N\<close>): it is
  rounded down, and it is 0 exactly when \<open>N < 1\<close>.
\<close>

theorem F_subinterval_count:
  assumes "r \<noteq> 0" and "t \<noteq> 0" and "\<delta> \<noteq> 0" and "c \<noteq> 0"
  shows "\<exists>b N. k_0 r t \<delta> w c = Inr b \<and> Npts r t \<delta> Np w c = Inr N
           \<and> F r t \<delta> Np w c = simps_loop (\<lambda>k. f k r t w c) (1 / 10 ^ 4) (\<bar>1 / 10 ^ 4 - b\<bar> / N)
                                   (py_range0 (py_int N)) (Some 0)
           \<and> length (py_range0 (py_int N)) = nat \<lfloor>N\<rfloor>
           \<and> (length (py_range0 (py_int N)) = 0) = (N < 1)"
  using assms
  by (simp add: F_def k_0_def Npts_def simps_def length_py_range0 nat_floor_zero)
    (simp add: py_range0_def py_int_def)

theorem F_subinterval_count_witness:
  "\<exists>b N. k_0 1 1 1 1 1 = Inr b \<and> Npts 1 1 1 1 1 1 = Inr N
           \<and> F 1 1 1 1 1 1 = simps_loop (\<lambda>k. f k 1 1 1 1) (1 / 10 ^ 4) (\<bar>1 / 10 ^ 4 - b\<bar> / N)
                                   (py_range0 (py_int N)) (Some 0)
           \<and> length (py_range0 (py_int N)) = nat \<lfloor>N\<rfloor>
           \<and> (length (py_range0 (py_int N)) = 0) = (N < 1)"
  using F_subinterval_count [of 1 1 1 1 1 1] by simp

text \<open>
  At \<open>r = 1\<close>, \<open>t = 100\<close>, \<open>\<delta> = 1/2\<close>, \<open>N\<^sub>p = 1\<close>, \<open>\<omega>\<^sub>0 = c = 1\<close> the estimator returns a number
  between 0 and 1. Its ceiling is 1, but the loop of \<open>simps\<close> runs over no subinterval at
  all and \<open>F\<close> returns 0.
\<close>

theorem F_count_counterexample:
  "Npts 1 100 (1/2) 1 1 1 = Inr (sqrt (4 * pi ^ 4 * exp (- 200) / 625 + 1) / pi)
   \<and> \<lceil>sqrt (4 * pi ^ 4 * exp (- 200) / 625 + 1) / pi\<rceil> = 1
   \<and> length (py_range0 (py_int (sqrt (4 * pi ^ 4 * exp (- 200) / 625 + 1) / pi))) = 0
   \<and> F 1 100 (1/2) 1 1 1 = Inr (Some 0)"
  by (simp add: Npts_late Npts_late_ceiling Npts_late_int F_late py_range0_def)

section \<open>Properties of the radius sweep\<close>

text \<open>
  C10 (the module-level names read by \<open>F_slice\<close>). Two calls of \<open>F_slice\<close> with the same
  arguments that both return, return the same array, whatever \<^verbatim>\<open>t_min\<close>, \<^verbatim>\<open>t_max\<close> and
  \<^verbatim>\<open>Nt\<close> are in each: these names reach the printed numbers and the unused
  \<^verbatim>\<open>T = np.linspace(t_min,t_max,Nt)\<close> (and decide whether the call raises there), never the
  grid.
\<close>

theorem F_slice_globals_independent:
  assumes "F_slice g1 r_min r_max Nr t delta Np w_0 c = Inr (out1, grid1)"
      and "F_slice g2 r_min r_max Nr t delta Np w_0 c = Inr (out2, grid2)"
  shows "grid1 = grid2"
  using assms by (auto simp add: F_slice_def split: option.splits sum.splits if_splits)

theorem F_slice_globals_independent_witness:
  "F_slice \<lparr>t_min = Some (1/10), t_max = Some (1/5), Nt = Some 2\<rparr> 1 1 1 100 (1/2) 1 1 1 =
     Inr ([1, 2, 100, 1, 1, 0, 1, 1, 2, 1 / 2,
           2 * sqrt (4 * pi ^ 4 * exp (- 200) / 625 + 1),
           2 * sqrt (4 * pi ^ 4 * exp (- 200) / 625 + 1), 1, 0, 0], [Some 0])
   \<and> F_slice \<lparr>t_min = Some 0, t_max = Some 7, Nt = Some 5\<rparr> 1 1 1 100 (1/2) 1 1 1 =
     Inr ([1, 5, 100, 1, 1, 0, 1, 1, 2, 1 / 2,
           2 * sqrt (4 * pi ^ 4 * exp (- 200) / 625 + 1),
           2 * sqrt (4 * pi ^ 4 * exp (- 200) / 625 + 1), 1, 0, 0], [Some 0])
   \<and> [Some (0::real)] = [Some 0]"
proof -
  have a: "F_slice \<lparr>t_min = Some (1/10), t_max = Some (1/5), Nt = Some 2\<rparr> 1 1 1 100 (1/2) 1 1 1 =
     Inr ([1, 2, 100, 1, 1, 0, 1, 1, 2, 1 / 2,
           2 * sqrt (4 * pi ^ 4 * exp (- 200) / 625 + 1),
           2 * sqrt (4 * pi ^ 4 * exp (- 200) / 625 + 1), 1, 0, 0], [Some 0])"
    using F_slice_late [of "1/10" "1/5" 2] by simp
  have b: "F_slice \<lparr>t_min = Some 0, t_max = Some 7, Nt = Some 5\<rparr> 1 1 1 100 (1/2) 1 1 1 =
     Inr ([1, 5, 100, 1, 1, 0, 1, 1, 2, 1 / 2,
           2 * sqrt (4 * pi ^ 4 * exp (- 200) / 625 + 1),
           2 * sqrt (4 * pi ^ 4 * exp (- 200) / 625 + 1), 1, 0, 0], [Some 0])"
    using F_slice_late [of 0 7 5] by simp
  from a b F_slice_globals_independent [OF a b] show ?thesis by blast
qed

end
